theory Spec2Isabelle
  imports Main "HOL-Library.Word"
begin

section \<open>The colour ingestion script (src/script.ts)\<close>

text \<open>
  The script reads a CSV file of colour names, turns every line into a record, checks the
  record, asks an embedding service for a vector of the name, and upserts the result into
  a store. This theory embeds the pipeline functions and the batch loop of
  \<^verbatim>\<open>script.ts\<close> and proves the properties the specification states about them.
\<close>

subsection \<open>JavaScript values\<close>

text \<open>
  A JavaScript string is a sequence of UTF-16 code units and \<^verbatim>\<open>length\<close> counts code
  units, so a string is a list of 16-bit words. \<open>js\<close> embeds an ASCII literal.
\<close>

type_synonym code_unit = "16 word"
type_synonym jsstring = "code_unit list"

definition js :: "string \<Rightarrow> jsstring" where
  "js s = map of_char s"

text \<open>
  TypeScript types are erased when the script runs: destructuring an array that is too
  short binds \<^verbatim>\<open>undefined\<close> to a variable declared \<^verbatim>\<open>string\<close>. The fields of a
  record are therefore dynamic values. Only the three kinds of value that the script
  itself puts into a colour record are modelled.
\<close>

datatype jsval = JUndefined | JString jsstring | JBoolean bool

fun typeof :: "jsval \<Rightarrow> string" where
  "typeof JUndefined = ''undefined''"
| "typeof (JString s) = ''string''"
| "typeof (JBoolean b) = ''boolean''"

subsection \<open>Records and errors\<close>

record RawColor =
  name :: jsval
  hex :: jsval
  is_good_name :: jsval

text \<open>\<^verbatim>\<open>PreppedColor\<close> is built by spreading a \<^verbatim>\<open>RawColor\<close> and adding one field.\<close>

record PreppedColor = RawColor +
  embedding_openai_1536 :: jsstring

text \<open>
  A number of the embedding vector is kept as its IEEE-754 bit pattern; the script never
  computes with it.
\<close>

type_synonym embedding = "64 word list"

text \<open>What an external service reports when it fails; the script only passes it on.\<close>

type_synonym ext_error = string

text \<open>
  Everything that can be thrown inside the loop body:
  \<^item> \<open>TypeError p\<close>: property \<open>p\<close> was read from \<^verbatim>\<open>undefined\<close>;
  \<^item> \<open>InvalidRawColor r\<close>: the \<^verbatim>\<open>Error\<close> of \<^verbatim>\<open>prepColorEntry\<close>, whose message holds
    \<^verbatim>\<open>JSON.stringify(rawColor)\<close>;
  \<^item> \<open>EmbeddingsRejected e\<close>: the promise of \<^verbatim>\<open>embeddings.create\<close> was rejected;
  \<^item> \<open>UpsertRejected e\<close>: the promise of \<^verbatim>\<open>upsert\<close> was rejected.
\<close>

datatype error =
    TypeError string
  | InvalidRawColor RawColor
  | EmbeddingsRejected ext_error
  | UpsertRejected ext_error

subsection \<open>String and array primitives\<close>

text \<open>
  \<^verbatim>\<open>s.split(sep)\<close> for a separator of one code unit: the pieces between the occurrences
  of the separator, in order; the empty string gives one empty piece.
\<close>

fun split_acc :: "code_unit \<Rightarrow> jsstring \<Rightarrow> jsstring \<Rightarrow> jsstring list" where
  "split_acc sep acc [] = [rev acc]"
| "split_acc sep acc (c # cs) =
     (if c = sep then rev acc # split_acc sep [] cs else split_acc sep (c # acc) cs)"

definition split :: "jsstring \<Rightarrow> code_unit \<Rightarrow> jsstring list" where
  "split s sep = split_acc sep [] s"

text \<open>\<^verbatim>\<open>s.startsWith(p)\<close>.\<close>

definition startsWith :: "jsstring \<Rightarrow> jsstring \<Rightarrow> bool" where
  "startsWith s p = (take (length p) s = p)"

text \<open>
  \<^verbatim>\<open>s.replace(p, r)\<close> for a string pattern: the first occurrence of \<open>p\<close>, if any, is
  replaced. (The replacement of the script is the empty string, so the \<^verbatim>\<open>$\<close> patterns of a
  replacement string play no part.)
\<close>

fun replace :: "jsstring \<Rightarrow> jsstring \<Rightarrow> jsstring \<Rightarrow> jsstring" where
  "replace [] p r = (if p = [] then r else [])"
| "replace (c # cs) p r =
     (if take (length p) (c # cs) = p then r @ drop (length p) (c # cs)
      else c # replace cs p r)"

text \<open>An element of an array by position, \<^verbatim>\<open>undefined\<close> past the end.\<close>

definition element :: "jsstring list \<Rightarrow> nat \<Rightarrow> jsval" where
  "element xs n = (if n < length xs then JString (xs ! n) else JUndefined)"

text \<open>
  \<^verbatim>\<open>xs.slice(start, end)\<close> for integer arguments: a negative index counts from the end,
  both are clamped to the array, and an omitted \<open>end\<close> is the length.
\<close>

definition slice :: "'a list \<Rightarrow> int \<Rightarrow> int option \<Rightarrow> 'a list" where
  "slice xs start end =
     (let len = int (length xs);
          k = (if start < 0 then max (len + start) 0 else min start len);
          final = (case end of
                     None \<Rightarrow> len
                   | Some e \<Rightarrow> if e < 0 then max (len + e) 0 else min e len)
      in take (nat (final - k)) (drop (nat k) xs))"

text \<open>
  \<^verbatim>\<open>v.length\<close>: reading it from \<^verbatim>\<open>undefined\<close> throws, a string has its number of code
  units, and for a boolean the property is \<^verbatim>\<open>undefined\<close> (\<open>None\<close>), which every
  comparison of \<^verbatim>\<open>validRawColor\<close> answers with \<^verbatim>\<open>false\<close>.
\<close>

fun length_of :: "jsval \<Rightarrow> error + nat option" where
  "length_of JUndefined = Inl (TypeError ''length'')"
| "length_of (JString s) = Inr (Some (length s))"
| "length_of (JBoolean b) = Inr None"

subsection \<open>Pipeline functions\<close>

text \<open>The two separators of the file format, \<^verbatim>\<open>","\<close> and \<^verbatim>\<open>"\\n"\<close>.\<close>

definition comma :: code_unit where
  "comma = of_char CHR '',''"

definition newline :: code_unit where
  "newline = of_char CHR 0x0A"

definition readColorRow :: "jsstring \<Rightarrow> RawColor" where
  "readColorRow rowText =
     (let fields = split rowText comma
      in \<lparr> name = element fields 0,
           hex = element fields 1,
           is_good_name = JBoolean (element fields 2 = JString (js ''x'')) \<rparr>)"

definition validRawColor :: "RawColor \<Rightarrow> error + bool" where
  "validRawColor rawColor =
     (case length_of (name rawColor) of
        Inl e \<Rightarrow> Inl e
      | Inr nameLength \<Rightarrow>
          (let validName =
                 (case nameLength of None \<Rightarrow> False | Some l \<Rightarrow> l > 0 \<and> l < 100)
           in (case length_of (hex rawColor) of
                 Inl e \<Rightarrow> Inl e
               | Inr hexLength \<Rightarrow>
                   (let validHex =
                          (hexLength = Some 7 \<and>
                           (case hex rawColor of
                              JString h \<Rightarrow> startsWith h (js ''#'')
                            | _ \<Rightarrow> False));
                        validIsGoodName = (typeof (is_good_name rawColor) = ''boolean'')
                    in Inr (validName \<and> validHex \<and> validIsGoodName)))))"

subsection \<open>The external collaborators\<close>

text \<open>
  The embedding service and the store are outside the script. What they answer may depend
  on anything that happened before, so they are functions on a state of the outside
  world \<open>'w\<close>, of which the script knows nothing:
  \<^item> \<open>embeddings_create\<close> is \<^verbatim>\<open>clientOpenai.embeddings.create\<close> for the fixed model and
    encoding: the promise is rejected (\<open>Inl\<close>) or resolves to the \<^verbatim>\<open>data\<close> array of the
    response, one embedding for each element;
  \<^item> \<open>upsert\<close> is \<^verbatim>\<open>clientSupabase.from("colors").upsert\<close> with conflict key
    \<^verbatim>\<open>name\<close>: the promise is rejected (\<open>Inl\<close>) or resolves to an object whose
    \<^verbatim>\<open>error\<close> field is an error (\<open>Some\<close>) or \<^verbatim>\<open>null\<close> (\<open>None\<close>);
  \<^item> \<open>JSON_stringify\<close> renders a vector of floating-point numbers as text.
\<close>

record 'w env =
  embeddings_create :: "jsval \<Rightarrow> 'w \<Rightarrow> (ext_error + embedding list) \<times> 'w"
  upsert :: "PreppedColor \<Rightarrow> 'w \<Rightarrow> (ext_error + ext_error option) \<times> 'w"
  JSON_stringify :: "embedding \<Rightarrow> jsstring"

text \<open>
  What a run does that can be seen from outside, in the order in which it happens: the
  requests to the two services, the lines written to the console, and the pauses.
  \<^item> \<open>EmbeddingRequest t\<close>: \<^verbatim>\<open>embeddings.create\<close> was called with input \<open>t\<close>;
  \<^item> \<open>UpsertRequest p\<close>: \<^verbatim>\<open>upsert\<close> was called with record \<open>p\<close>;
  \<^item> \<open>LogStoreError e\<close>: \<^verbatim>\<open>console.error(error)\<close> in \<^verbatim>\<open>saveColorEntry\<close>;
  \<^item> \<open>LogSaved n\<close>: \<^verbatim>\<open>console.log("Saved color entry", name)\<close>;
  \<^item> \<open>LogProcessing n\<close>: the line \<^verbatim>\<open>Processing n color entries...\<close>;
  \<^item> \<open>LogProcessed k n\<close>: the line \<^verbatim>\<open>Processed k/n entries. Adding delay...\<close>;
  \<^item> \<open>Delay ms\<close>: \<^verbatim>\<open>await delay(ms)\<close>;
  \<^item> \<open>LogRowError k e\<close>: \<^verbatim>\<open>console.error("Error processing row k:", e)\<close>;
  \<^item> \<open>LogCompleted\<close>: the line \<^verbatim>\<open>Script completed!\<close>.
\<close>

datatype event =
    EmbeddingRequest jsval
  | UpsertRequest PreppedColor
  | LogStoreError ext_error
  | LogSaved jsval
  | LogProcessing nat
  | LogProcessed int nat
  | Delay nat
  | LogRowError int error
  | LogCompleted

text \<open>
  An asynchronous function of the script takes the world and returns what it returned or
  threw, the events it caused, and the world it left.
\<close>

definition getEmbedding ::
  "'w env \<Rightarrow> jsval \<Rightarrow> 'w \<Rightarrow> (error + embedding) \<times> event list \<times> 'w" where
  "getEmbedding env inputText w =
     (case embeddings_create env inputText w of
        (Inl e, w') \<Rightarrow> (Inl (EmbeddingsRejected e), [EmbeddingRequest inputText], w')
      | (Inr data, w') \<Rightarrow>
          (case data of
             [] \<Rightarrow> (Inl (TypeError ''embedding''), [EmbeddingRequest inputText], w')
           | d # _ \<Rightarrow> (Inr d, [EmbeddingRequest inputText], w')))"

definition prepColorEntry ::
  "'w env \<Rightarrow> RawColor \<Rightarrow> 'w \<Rightarrow> (error + PreppedColor) \<times> event list \<times> 'w" where
  "prepColorEntry env rawColor w =
     (case validRawColor rawColor of
        Inl e \<Rightarrow> (Inl e, [], w)
      | Inr False \<Rightarrow> (Inl (InvalidRawColor rawColor), [], w)
      | Inr True \<Rightarrow>
          (case getEmbedding env (name rawColor) w of
             (Inl e, evs, w') \<Rightarrow> (Inl e, evs, w')
           | (Inr embeddingSmall, evs, w') \<Rightarrow>
               (case hex rawColor of
                  JString h \<Rightarrow>
                    (let noHashHex = replace h (js ''#'') (js [])
                     in (Inr \<lparr> name = name rawColor,
                               hex = JString noHashHex,
                               is_good_name = is_good_name rawColor,
                               embedding_openai_1536 = JSON_stringify env embeddingSmall \<rparr>,
                         evs, w'))
                | _ \<Rightarrow> (Inl (TypeError ''replace''), evs, w'))))"

definition saveColorEntry ::
  "'w env \<Rightarrow> PreppedColor \<Rightarrow> 'w \<Rightarrow> (error + unit) \<times> event list \<times> 'w" where
  "saveColorEntry env preppedColor w =
     (case upsert env preppedColor w of
        (Inl e, w') \<Rightarrow> (Inl (UpsertRejected e), [UpsertRequest preppedColor], w')
      | (Inr (Some err), w') \<Rightarrow>
          (Inr (), [UpsertRequest preppedColor, LogStoreError err], w')
      | (Inr None, w') \<Rightarrow>
          (Inr (), [UpsertRequest preppedColor, LogSaved (name preppedColor)], w'))"

subsection \<open>The batch driver\<close>

text \<open>
  \<^verbatim>\<open>getColorRows\<close>, from the text of the file on (reading the file is outside the
  script). \<^verbatim>\<open>maxRows\<close> is an optional number, here an integer; the test
  \<^verbatim>\<open>maxRows ? ... : ...\<close> takes the first branch when the number is given and not zero.
\<close>

definition truthy :: "int option \<Rightarrow> bool" where
  "truthy n = (case n of None \<Rightarrow> False | Some k \<Rightarrow> k \<noteq> 0)"

definition getColorRows :: "jsstring \<Rightarrow> bool \<Rightarrow> int option \<Rightarrow> jsstring list" where
  "getColorRows file omitHeader maxRows =
     (let rows = split file newline;
          contentRows = (if omitHeader then slice rows 1 None else rows);
          returnRows = (if truthy maxRows then slice contentRows 0 maxRows
                        else contentRows)
      in returnRows)"

text \<open>\<^verbatim>\<open>colorRows[i]\<close>: the element at an index of the array, \<^verbatim>\<open>undefined\<close> outside it.\<close>

definition row_at :: "jsstring list \<Rightarrow> int \<Rightarrow> jsstring option" where
  "row_at colorRows i =
     (if 0 \<le> i \<and> i < int (length colorRows) then Some (colorRows ! nat i) else None)"

text \<open>
  The body of the loop for index \<open>i\<close>: the \<^verbatim>\<open>try\<close> block and its \<^verbatim>\<open>catch\<close>. When the
  row is \<^verbatim>\<open>undefined\<close> (the loop can start at an index below zero),
  \<^verbatim>\<open>readColorRow\<close> throws when it calls \<^verbatim>\<open>split\<close> on it. The test
  \<^verbatim>\<open>(i + 1) % 10 === 0\<close> holds exactly when 10 divides \<open>i + 1\<close>.
\<close>

definition processRow ::
  "'w env \<Rightarrow> jsstring list \<Rightarrow> int \<Rightarrow> 'w \<Rightarrow> event list \<times> 'w" where
  "processRow env colorRows i w =
     (case row_at colorRows i of
        None \<Rightarrow> ([LogRowError (i + 1) (TypeError ''split'')], w)
      | Some row \<Rightarrow>
          (let rawColor = readColorRow row
           in (case prepColorEntry env rawColor w of
                 (Inl e, evs, w') \<Rightarrow> (evs @ [LogRowError (i + 1) e], w')
               | (Inr preppedColor, evs, w') \<Rightarrow>
                   (case saveColorEntry env preppedColor w' of
                      (Inl e, evs', w'') \<Rightarrow> (evs @ evs' @ [LogRowError (i + 1) e], w'')
                    | (Inr _, evs', w'') \<Rightarrow>
                        (if (i + 1) mod 10 = 0
                         then (evs @ evs' @
                               [LogProcessed (i + 1) (length colorRows), Delay 200], w'')
                         else (evs @ evs', w''))))))"

text \<open>The \<^verbatim>\<open>for\<close> loop from index \<open>i\<close> on, with the events so far.\<close>

function loop ::
  "'w env \<Rightarrow> jsstring list \<Rightarrow> int \<Rightarrow> event list \<Rightarrow> 'w \<Rightarrow> event list \<times> 'w" where
  "loop env colorRows i trace w =
     (if i < int (length colorRows)
      then (case processRow env colorRows i w of
              (evs, w') \<Rightarrow> loop env colorRows (i + 1) (trace @ evs) w')
      else (trace, w))"
  by pat_completeness auto
termination
  by (relation "measure (\<lambda>(env, colorRows, i, trace, w). nat (int (length colorRows) - i))")
     auto

declare loop.simps [simp del]

text \<open>
  The first index of the loop, \<^verbatim>\<open>startRow || 0\<close>: the start row when it is given and not
  zero, and zero otherwise.
\<close>

definition start_index :: "int option \<Rightarrow> int" where
  "start_index startRow =
     (case startRow of None \<Rightarrow> 0 | Some s \<Rightarrow> if s \<noteq> 0 then s else 0)"

text \<open>\<^verbatim>\<open>runFullScript\<close> on the text of the CSV file.\<close>

definition runFullScript ::
  "'w env \<Rightarrow> jsstring \<Rightarrow> int option \<Rightarrow> int option \<Rightarrow> 'w \<Rightarrow> event list \<times> 'w" where
  "runFullScript env file maxRows startRow w =
     (let colorRows = getColorRows file True maxRows
      in (case loop env colorRows (start_index startRow)
                 [LogProcessing (length colorRows)] w of
            (trace, w') \<Rightarrow> (trace @ [LogCompleted], w')))"

subsection \<open>Reading the events of a run\<close>

text \<open>
  The part of a list of events that is about pauses: the announcements of a pause and the
  pauses themselves, in order.
\<close>

fun is_pause :: "event \<Rightarrow> bool" where
  "is_pause (LogProcessed k n) = True"
| "is_pause (Delay ms) = True"
| "is_pause _ = False"

definition pause_events :: "event list \<Rightarrow> event list" where
  "pause_events trace = filter is_pause trace"

text \<open>The positions that the announcements of a pause name, in order.\<close>

fun pause_row :: "event \<Rightarrow> int list" where
  "pause_row (LogProcessed k n) = [k]"
| "pause_row _ = []"

definition pause_rows :: "event list \<Rightarrow> int list" where
  "pause_rows trace = concat (map pause_row trace)"

text \<open>The positions of the rows whose error was written by the \<^verbatim>\<open>catch\<close> block, in order.\<close>

fun failed_row :: "event \<Rightarrow> int list" where
  "failed_row (LogRowError k e) = [k]"
| "failed_row _ = []"

definition failed_rows :: "event list \<Rightarrow> int list" where
  "failed_rows trace = concat (map failed_row trace)"

subsection \<open>Inputs of the examples\<close>

text \<open>
  A world that only counts the requests it has served, with services that never fail:
  the embedding service answers with one (empty) vector, the store with no error.
\<close>

definition env_ok :: "nat env" where
  "env_ok = \<lparr> embeddings_create = (\<lambda>t w. (Inr [[]], Suc w)),
              upsert = (\<lambda>p w. (Inr None, Suc w)),
              JSON_stringify = (\<lambda>v. js ''[]'') \<rparr>"

text \<open>The same world with a store that answers every upsert with an error.\<close>

definition env_store_down :: "nat env" where
  "env_store_down = \<lparr> embeddings_create = (\<lambda>t w. (Inr [[]], Suc w)),
              upsert = (\<lambda>p w. (Inr (Some ''store unavailable''), Suc w)),
              JSON_stringify = (\<lambda>v. js ''[]'') \<rparr>"

text \<open>
  The same world with an embedding service that rejects every request, and with a store
  whose upsert call is rejected (the promise fails, no answer comes back).
\<close>

definition env_embedding_down :: "nat env" where
  "env_embedding_down = \<lparr> embeddings_create = (\<lambda>t w. (Inl ''quota exceeded'', Suc w)),
              upsert = (\<lambda>p w. (Inr None, Suc w)),
              JSON_stringify = (\<lambda>v. js ''[]'') \<rparr>"

definition env_store_rejecting :: "nat env" where
  "env_store_rejecting = \<lparr> embeddings_create = (\<lambda>t w. (Inr [[]], Suc w)),
              upsert = (\<lambda>p w. (Inl ''connection reset'', Suc w)),
              JSON_stringify = (\<lambda>v. js ''[]'') \<rparr>"

text \<open>
  The line \<^verbatim>\<open>Red,#ff0000,x\<close>, its record, what is stored for it, and the events of
  its row when nothing fails.
\<close>

definition red_row :: jsstring where
  "red_row = js ''Red,#ff0000,x''"

definition red :: RawColor where
  "red = \<lparr> name = JString (js ''Red''), hex = JString (js ''#ff0000''),
          is_good_name = JBoolean True \<rparr>"

definition red_prepped :: PreppedColor where
  "red_prepped = \<lparr> name = JString (js ''Red''), hex = JString (js ''ff0000''),
          is_good_name = JBoolean True, embedding_openai_1536 = js ''[]'' \<rparr>"

definition red_events :: "event list" where
  "red_events = [EmbeddingRequest (JString (js ''Red'')), UpsertRequest red_prepped,
                 LogSaved (JString (js ''Red''))]"

text \<open>A line with an empty name, and its record.\<close>

definition nameless_row :: jsstring where
  "nameless_row = js '',#ff0000,x''"

definition nameless :: RawColor where
  "nameless = \<lparr> name = JString (js []), hex = JString (js ''#ff0000''),
               is_good_name = JBoolean True \<rparr>"

text \<open>A line with one field only, and its record.\<close>

definition one_field_row :: jsstring where
  "one_field_row = js ''Red''"

definition one_field :: RawColor where
  "one_field = \<lparr> name = JString (js ''Red''), hex = JUndefined, is_good_name = JBoolean False \<rparr>"

text \<open>
  Files with a header line and 1, 2, 12 and 25 lines \<^verbatim>\<open>Red,#ff0000,x\<close>, a file of
  3 lines whose second line has an empty name, and a file of 11 lines whose tenth line
  has an empty name.
\<close>

definition file1 :: jsstring where
  "file1 = js ''name,hex,good name\<newline>Red,#ff0000,x''"

definition file2 :: jsstring where
  "file2 = js ''name,hex,good name\<newline>Red,#ff0000,x\<newline>Red,#ff0000,x''"

definition file3 :: jsstring where
  "file3 = js ''name,hex,good name\<newline>Red,#ff0000,x\<newline>,#ff0000,x\<newline>Red,#ff0000,x''"

definition file11 :: jsstring where
  "file11 = js ''name,hex,good name\<newline>Red,#ff0000,x\<newline>Red,#ff0000,x\<newline>Red,#ff0000,x\<newline>Red,#ff0000,x\<newline>Red,#ff0000,x\<newline>Red,#ff0000,x\<newline>Red,#ff0000,x\<newline>Red,#ff0000,x\<newline>Red,#ff0000,x\<newline>,#ff0000,x\<newline>Red,#ff0000,x''"

definition file12 :: jsstring where
  "file12 = js ''name,hex,good name\<newline>Red,#ff0000,x\<newline>Red,#ff0000,x\<newline>Red,#ff0000,x\<newline>Red,#ff0000,x\<newline>Red,#ff0000,x\<newline>Red,#ff0000,x\<newline>Red,#ff0000,x\<newline>Red,#ff0000,x\<newline>Red,#ff0000,x\<newline>Red,#ff0000,x\<newline>Red,#ff0000,x\<newline>Red,#ff0000,x''"

definition file25 :: jsstring where
  "file25 = js ''name,hex,good name\<newline>Red,#ff0000,x\<newline>Red,#ff0000,x\<newline>Red,#ff0000,x\<newline>Red,#ff0000,x\<newline>Red,#ff0000,x\<newline>Red,#ff0000,x\<newline>Red,#ff0000,x\<newline>Red,#ff0000,x\<newline>Red,#ff0000,x\<newline>Red,#ff0000,x\<newline>Red,#ff0000,x\<newline>Red,#ff0000,x\<newline>Red,#ff0000,x\<newline>Red,#ff0000,x\<newline>Red,#ff0000,x\<newline>Red,#ff0000,x\<newline>Red,#ff0000,x\<newline>Red,#ff0000,x\<newline>Red,#ff0000,x\<newline>Red,#ff0000,x\<newline>Red,#ff0000,x\<newline>Red,#ff0000,x\<newline>Red,#ff0000,x\<newline>Red,#ff0000,x\<newline>Red,#ff0000,x''"

subsection \<open>Notions of the specification\<close>

text \<open>
  The events of a run and the rows it works on (the lines of the file without the header,
  cut to \<^verbatim>\<open>maxRows\<close>).
\<close>

abbreviation events_of_run ::
  "'w env \<Rightarrow> jsstring \<Rightarrow> int option \<Rightarrow> int option \<Rightarrow> 'w \<Rightarrow> event list" where
  "events_of_run env file maxRows startRow w \<equiv> fst (runFullScript env file maxRows startRow w)"

abbreviation rows_of_run :: "jsstring \<Rightarrow> int option \<Rightarrow> jsstring list" where
  "rows_of_run file maxRows \<equiv> getColorRows file True maxRows"

text \<open>
  The services never throw: the embedding request always resolves to data with at least
  one element, and the upsert always resolves (with or without a reported error).
\<close>

definition never_throws :: "'w env \<Rightarrow> bool" where
  "never_throws env \<longleftrightarrow>
     (\<forall>t w. \<exists>d ds. fst (embeddings_create env t w) = Inr (d # ds)) \<and>
     (\<forall>p w. \<exists>r. fst (upsert env p w) = Inr r)"

section \<open>Properties\<close>

subsection \<open>Splitting\<close>

lemma split_acc_field:
  "sep \<notin> set a \<Longrightarrow>
   split_acc sep acc (a @ sep # rest) = (rev acc @ a) # split_acc sep [] rest"
  by (induction a arbitrary: acc) auto

lemma split_acc_last: "sep \<notin> set a \<Longrightarrow> split_acc sep acc a = [rev acc @ a]"
  by (induction a arbitrary: acc) auto

lemma split_field: "sep \<notin> set a \<Longrightarrow> split (a @ sep # rest) sep = a # split rest sep"
  by (simp add: split_def split_acc_field)

lemma split_last: "sep \<notin> set a \<Longrightarrow> split a sep = [a]"
  by (simp add: split_def split_acc_last)

lemma split_acc_not_Nil: "split_acc sep acc s \<noteq> []"
  by (induction s arbitrary: acc) auto

lemma split_not_Nil: "split s sep \<noteq> []"
  by (simp add: split_def split_acc_not_Nil)

subsection \<open>The row parser\<close>

text \<open>
  C7. A line made of three fields without a comma, joined by commas, is parsed into the
  record whose name is the first field, whose hex is the second field with its marker,
  and whose flag says whether the third field is the string \<^verbatim>\<open>x\<close>. The parser is a
  function from strings to records, so it answers every such line, and always the same.
\<close>

theorem readColorRow_three_fields:
  assumes "comma \<notin> set a" and "comma \<notin> set b" and "comma \<notin> set c"
  shows "readColorRow (a @ comma # b @ comma # c) =
           \<lparr> name = JString a, hex = JString b, is_good_name = JBoolean (c = js ''x'') \<rparr>"
  using assms by (simp add: readColorRow_def split_field split_last element_def)

theorem readColorRow_three_fields_witness:
  "comma \<notin> set (js ''Red'') \<and> comma \<notin> set (js ''#ff0000'') \<and>
   comma \<notin> set (js ''x'') \<and> comma \<notin> set (js []) \<and>
   readColorRow (js ''Red,#ff0000,x'') =
     \<lparr> name = JString (js ''Red''), hex = JString (js ''#ff0000''),
       is_good_name = JBoolean True \<rparr> \<and>
   readColorRow (js ''Red,#ff0000,'') =
     \<lparr> name = JString (js ''Red''), hex = JString (js ''#ff0000''),
       is_good_name = JBoolean False \<rparr>"
  using readColorRow_three_fields [of "js ''Red''" "js ''#ff0000''" "js ''x''"]
        readColorRow_three_fields [of "js ''Red''" "js ''#ff0000''" "js []"]
  by (simp add: js_def comma_def)

subsection \<open>Validation\<close>

lemma validRawColor_strings:
  "name r = JString n \<Longrightarrow> hex r = JString h \<Longrightarrow>
   validRawColor r =
     Inr (0 < length n \<and> length n < 100 \<and> length h = 7 \<and> startsWith h (js ''#'') \<and>
          typeof (is_good_name r) = ''boolean'')"
  by (simp add: validRawColor_def)

lemma validRawColor_True_strings:
  "validRawColor r = Inr True \<Longrightarrow> \<exists>n h. name r = JString n \<and> hex r = JString h"
  by (cases "name r"; cases "hex r") (simp_all add: validRawColor_def)

text \<open>
  C6. Validation accepts a record exactly when its name is a string of at least 1 and
  fewer than 100 code units, its hex is a string of exactly 7 code units that starts with
  \<^verbatim>\<open>#\<close>, and its flag is a boolean. In particular a name of length 0 or of length 100 or
  more is not accepted, and a hex that has not 7 code units or does not start with
  \<^verbatim>\<open>#\<close> is not accepted.
\<close>

theorem validRawColor_accepts_iff:
  "(validRawColor r = Inr True \<longleftrightarrow>
     (\<exists>n h. name r = JString n \<and> hex r = JString h \<and>
            1 \<le> length n \<and> length n < 100 \<and>
            length h = 7 \<and> startsWith h (js ''#'') \<and>
            typeof (is_good_name r) = ''boolean'')) \<and>
   (name r = JString n \<and> (length n = 0 \<or> 100 \<le> length n) \<longrightarrow>
      validRawColor r \<noteq> Inr True) \<and>
   (hex r = JString h \<and> (length h \<noteq> 7 \<or> \<not> startsWith h (js ''#'')) \<longrightarrow>
      validRawColor r \<noteq> Inr True)"
proof (intro conjI impI)
  show "validRawColor r = Inr True \<longleftrightarrow>
     (\<exists>n h. name r = JString n \<and> hex r = JString h \<and>
            1 \<le> length n \<and> length n < 100 \<and>
            length h = 7 \<and> startsWith h (js ''#'') \<and>
            typeof (is_good_name r) = ''boolean'')" (is "?L \<longleftrightarrow> ?R")
  proof
    assume ?L
    then obtain n h where "name r = JString n" and "hex r = JString h"
      using validRawColor_True_strings by blast
    with \<open>?L\<close> show ?R
      by (simp add: validRawColor_strings Suc_le_eq)
  next
    assume ?R
    then show ?L
      by (auto simp: validRawColor_strings)
  qed
next
  assume "name r = JString n \<and> (length n = 0 \<or> 100 \<le> length n)"
  then show "validRawColor r \<noteq> Inr True"
    by (cases "hex r") (auto simp: validRawColor_def)
next
  assume "hex r = JString h \<and> (length h \<noteq> 7 \<or> \<not> startsWith h (js ''#''))"
  then show "validRawColor r \<noteq> Inr True"
    by (cases "name r") (auto simp: validRawColor_def)
qed

theorem validRawColor_accepts_iff_witness:
  "validRawColor \<lparr> name = JString (js ''Red''), hex = JString (js ''#ff0000''),
                   is_good_name = JBoolean True \<rparr> = Inr True \<and>
   validRawColor \<lparr> name = JString (js []), hex = JString (js ''#ff0000''),
                   is_good_name = JBoolean True \<rparr> \<noteq> Inr True \<and>
   validRawColor \<lparr> name = JString (js ''Red''), hex = JString (js ''ff0000''),
                   is_good_name = JBoolean True \<rparr> \<noteq> Inr True"
  using validRawColor_accepts_iff
          [of "\<lparr> name = JString (js ''Red''), hex = JString (js ''#ff0000''),
                 is_good_name = JBoolean True \<rparr>" "js ''Red''" "js ''#ff0000''"]
        validRawColor_accepts_iff
          [of "\<lparr> name = JString (js []), hex = JString (js ''#ff0000''),
                 is_good_name = JBoolean True \<rparr>" "js []" "js ''#ff0000''"]
        validRawColor_accepts_iff
          [of "\<lparr> name = JString (js ''Red''), hex = JString (js ''ff0000''),
                 is_good_name = JBoolean True \<rparr>" "js ''Red''" "js ''ff0000''"]
  by (simp add: js_def startsWith_def)

subsection \<open>The row parser on any line\<close>

text \<open>
  C9. The parser answers every string. Its name field is always a string, its hex field is
  a string or \<^verbatim>\<open>undefined\<close>, and its flag is always a boolean. A line with more than
  three fields gives the record of its first three fields, whatever follows them. A line
  with two fields gives a record with the flag \<^verbatim>\<open>false\<close>, and a line with one field
  gives a record whose hex is \<^verbatim>\<open>undefined\<close> and whose flag is \<^verbatim>\<open>false\<close>.
\<close>

theorem readColorRow_total:
  "(\<exists>n. name (readColorRow row) = JString n) \<and>
   (hex (readColorRow row) = JUndefined \<or> (\<exists>h. hex (readColorRow row) = JString h)) \<and>
   (\<exists>b. is_good_name (readColorRow row) = JBoolean b) \<and>
   (comma \<notin> set a \<and> comma \<notin> set b \<and> comma \<notin> set c \<longrightarrow>
      readColorRow (a @ comma # b @ comma # c @ comma # rest) =
        \<lparr> name = JString a, hex = JString b, is_good_name = JBoolean (c = js ''x'') \<rparr>) \<and>
   (comma \<notin> set a \<and> comma \<notin> set b \<longrightarrow>
      readColorRow (a @ comma # b) =
        \<lparr> name = JString a, hex = JString b, is_good_name = JBoolean False \<rparr>) \<and>
   (comma \<notin> set a \<longrightarrow>
      readColorRow a = \<lparr> name = JString a, hex = JUndefined, is_good_name = JBoolean False \<rparr>)"
proof -
  have "0 < length (split row comma)"
    using split_not_Nil [of row comma] by simp
  then have "\<exists>n. name (readColorRow row) = JString n"
    by (simp add: readColorRow_def element_def Let_def)
  moreover have "hex (readColorRow row) = JUndefined \<or> (\<exists>h. hex (readColorRow row) = JString h)"
    by (simp add: readColorRow_def element_def Let_def)
  moreover have "\<exists>b. is_good_name (readColorRow row) = JBoolean b"
    by (simp add: readColorRow_def Let_def)
  moreover have "readColorRow (a @ comma # b @ comma # c @ comma # rest) =
        \<lparr> name = JString a, hex = JString b, is_good_name = JBoolean (c = js ''x'') \<rparr>"
    if "comma \<notin> set a \<and> comma \<notin> set b \<and> comma \<notin> set c"
    using that by (simp add: readColorRow_def split_field element_def)
  moreover have "readColorRow (a @ comma # b) =
        \<lparr> name = JString a, hex = JString b, is_good_name = JBoolean False \<rparr>"
    if "comma \<notin> set a \<and> comma \<notin> set b"
    using that by (simp add: readColorRow_def split_field split_last element_def)
  moreover have "readColorRow a =
        \<lparr> name = JString a, hex = JUndefined, is_good_name = JBoolean False \<rparr>"
    if "comma \<notin> set a"
    using that by (simp add: readColorRow_def split_last element_def)
  ultimately show ?thesis by blast
qed

theorem readColorRow_total_witness:
  "comma \<notin> set (js ''Red'') \<and> comma \<notin> set (js ''#ff0000'') \<and> comma \<notin> set (js ''x'') \<and>
   readColorRow (js ''Red,#ff0000,x,extra,more'') =
     \<lparr> name = JString (js ''Red''), hex = JString (js ''#ff0000''),
       is_good_name = JBoolean True \<rparr> \<and>
   readColorRow (js ''Red,#ff0000'') =
     \<lparr> name = JString (js ''Red''), hex = JString (js ''#ff0000''),
       is_good_name = JBoolean False \<rparr> \<and>
   readColorRow (js ''Red'') =
     \<lparr> name = JString (js ''Red''), hex = JUndefined, is_good_name = JBoolean False \<rparr> \<and>
   readColorRow (js []) =
     \<lparr> name = JString (js []), hex = JUndefined, is_good_name = JBoolean False \<rparr>"
  using readColorRow_total [of "js ''Red''" "js ''Red''" "js ''#ff0000''" "js ''x''" "js ''extra,more''"]
        readColorRow_total [of "js []" "js []" "js ''#ff0000''" "js ''x''" "js ''extra,more''"]
  by (simp add: js_def comma_def)

lemma validRawColor_cong:
  "name r = name r' \<Longrightarrow> hex r = hex r' \<Longrightarrow>
   typeof (is_good_name r) = typeof (is_good_name r') \<Longrightarrow> validRawColor r = validRawColor r'"
  by (simp only: validRawColor_def)

text \<open>
  C10. The flag of a parsed record is always a boolean, so the check of the flag in
  validation always succeeds on it: two parsed records with the same name and the same
  hex get the same verdict, whatever their flags are.
\<close>

theorem parsed_flag_is_boolean:
  "typeof (is_good_name (readColorRow row)) = ''boolean'' \<and>
   (name (readColorRow row) = name (readColorRow row') \<and>
    hex (readColorRow row) = hex (readColorRow row') \<longrightarrow>
      validRawColor (readColorRow row) = validRawColor (readColorRow row'))"
proof -
  have flag: "typeof (is_good_name (readColorRow s)) = ''boolean''" for s
    by (simp add: readColorRow_def Let_def)
  have "validRawColor (readColorRow row) = validRawColor (readColorRow row')"
    if "name (readColorRow row) = name (readColorRow row') \<and>
        hex (readColorRow row) = hex (readColorRow row')"
    using that flag [of row] flag [of row'] by (intro validRawColor_cong) simp_all
  with flag [of row] show ?thesis by blast
qed

theorem parsed_flag_is_boolean_witness:
  "name (readColorRow (js ''Red,#ff0000,x'')) = name (readColorRow (js ''Red,#ff0000,'')) \<and>
   hex (readColorRow (js ''Red,#ff0000,x'')) = hex (readColorRow (js ''Red,#ff0000,'')) \<and>
   is_good_name (readColorRow (js ''Red,#ff0000,x'')) \<noteq>
     is_good_name (readColorRow (js ''Red,#ff0000,'')) \<and>
   typeof (is_good_name (readColorRow (js ''Red,#ff0000,x''))) = ''boolean'' \<and>
   validRawColor (readColorRow (js ''Red,#ff0000,x'')) =
     validRawColor (readColorRow (js ''Red,#ff0000,''))"
  using parsed_flag_is_boolean [of "js ''Red,#ff0000,x''" "js ''Red,#ff0000,''"]
  by (simp add: readColorRow_def split_def element_def js_def comma_def)

subsection \<open>The inputs of the examples\<close>

lemma valid_red: "validRawColor red = Inr True"
  by (simp add: red_def validRawColor_def startsWith_def js_def)

lemma read_red: "readColorRow red_row = red"
  by (simp add: readColorRow_def red_row_def red_def js_def split_def comma_def element_def)

lemma read_nameless: "readColorRow nameless_row = nameless"
  by (simp add: readColorRow_def nameless_row_def nameless_def js_def split_def comma_def
        element_def)

lemma invalid_nameless: "validRawColor nameless = Inr False"
  by (simp add: nameless_def validRawColor_def startsWith_def js_def)

lemma read_one_field: "readColorRow one_field_row = one_field"
  by (simp add: readColorRow_def one_field_row_def one_field_def js_def split_def comma_def
        element_def)

lemma throws_one_field: "validRawColor one_field = Inl (TypeError ''length'')"
  by (simp add: one_field_def validRawColor_def)

lemma never_throws_env_ok: "never_throws env_ok"
  by (simp add: never_throws_def env_ok_def)

lemma prep_red_ok:
  "prepColorEntry env_ok red w =
     (Inr red_prepped, [EmbeddingRequest (JString (js ''Red''))], Suc w)"
  by (simp add: prepColorEntry_def valid_red getEmbedding_def env_ok_def)
     (simp add: red_def red_prepped_def js_def)

lemma save_red_ok:
  "saveColorEntry env_ok red_prepped w =
     (Inr (), [UpsertRequest red_prepped, LogSaved (JString (js ''Red''))], Suc w)"
  by (simp add: saveColorEntry_def env_ok_def) (simp add: red_prepped_def)

lemma processRow_red_ok:
  "row_at colorRows i = Some red_row \<Longrightarrow>
   processRow env_ok colorRows i w =
     (red_events @ (if (i + 1) mod 10 = 0
                    then [LogProcessed (i + 1) (length colorRows), Delay 200] else []),
      Suc (Suc w))"
  by (simp add: processRow_def read_red prep_red_ok save_red_ok red_events_def)

lemma processRow_nameless:
  "row_at colorRows i = Some nameless_row \<Longrightarrow>
   processRow env colorRows i w = ([LogRowError (i + 1) (InvalidRawColor nameless)], w)"
  by (simp add: processRow_def read_nameless prepColorEntry_def invalid_nameless)

lemma prep_red_down:
  "prepColorEntry env_store_down red w =
     (Inr red_prepped, [EmbeddingRequest (JString (js ''Red''))], Suc w)"
  by (simp add: prepColorEntry_def valid_red getEmbedding_def env_store_down_def)
     (simp add: red_def red_prepped_def js_def)

lemma prep_red_embedding_down:
  "prepColorEntry env_embedding_down red w =
     (Inl (EmbeddingsRejected ''quota exceeded''), [EmbeddingRequest (JString (js ''Red''))],
      Suc w)"
  by (simp add: prepColorEntry_def valid_red getEmbedding_def env_embedding_down_def)
     (simp add: red_def)

lemma prep_red_rejecting:
  "prepColorEntry env_store_rejecting red w =
     (Inr red_prepped, [EmbeddingRequest (JString (js ''Red''))], Suc w)"
  by (simp add: prepColorEntry_def valid_red getEmbedding_def env_store_rejecting_def)
     (simp add: red_def red_prepped_def js_def)

lemma upsert_red_down:
  "upsert env_store_down red_prepped w = (Inr (Some ''store unavailable''), Suc w)"
  by (simp add: env_store_down_def)

lemma rows1: "getColorRows file1 True maxRows = (if truthy maxRows then slice [red_row] 0 maxRows else [red_row])"
  by (simp add: getColorRows_def file1_def js_def split_def newline_def slice_def red_row_def)

lemma rows2: "split file2 newline = [js ''name,hex,good name'', red_row, red_row]"
  by (simp add: file2_def js_def split_def newline_def red_row_def)

lemma rows3: "getColorRows file3 True None = [red_row, nameless_row, red_row]"
  by (simp add: getColorRows_def file3_def js_def split_def newline_def slice_def truthy_def
        red_row_def nameless_row_def)

lemma rows11:
  "getColorRows file11 True None =
     [red_row, red_row, red_row, red_row, red_row, red_row, red_row, red_row, red_row,
      nameless_row, red_row]"
  by (simp add: getColorRows_def file11_def js_def split_def newline_def slice_def truthy_def
        red_row_def nameless_row_def)

lemma rows12: "getColorRows file12 True None = [red_row, red_row, red_row, red_row, red_row, red_row, red_row, red_row, red_row, red_row, red_row, red_row]"
  by (simp add: getColorRows_def file12_def js_def split_def newline_def slice_def truthy_def
        red_row_def)

lemma rows25: "getColorRows file25 True None = [red_row, red_row, red_row, red_row, red_row, red_row, red_row, red_row, red_row, red_row, red_row, red_row, red_row, red_row, red_row, red_row, red_row, red_row, red_row, red_row, red_row, red_row, red_row, red_row, red_row]"
  by (simp add: getColorRows_def file25_def js_def split_def newline_def slice_def truthy_def
        red_row_def)

subsection \<open>Enrichment\<close>

lemma replace_hash:
  "startsWith h (js ''#'') \<Longrightarrow> of_char CHR ''#'' # replace h (js ''#'') (js []) = h"
  by (cases h) (auto simp: startsWith_def js_def)

text \<open>
  C5. When validation accepts a record and enrichment succeeds on it, the hex of the
  enriched record has 6 code units, and putting \<^verbatim>\<open>#\<close> in front of it gives back the
  7 code units of the hex of the record.
\<close>

theorem hex_round_trip:
  assumes "validRawColor r = Inr True"
      and "prepColorEntry env r w = (Inr p, evs, w')"
  shows "\<exists>h h'. hex r = JString h \<and> hex p = JString h' \<and> length h = 7 \<and> length h' = 6 \<and>
                of_char CHR ''#'' # h' = h"
proof -
  from assms(1) obtain n h where nh: "name r = JString n" "hex r = JString h"
    using validRawColor_True_strings by blast
  with assms(1) have sw: "startsWith h (js ''#'')" and len: "length h = 7"
    by (simp_all add: validRawColor_strings)
  from assms nh have p: "hex p = JString (replace h (js ''#'') (js []))"
    by (auto simp: prepColorEntry_def Let_def split: prod.splits sum.splits)
  have eq: "of_char CHR ''#'' # replace h (js ''#'') (js []) = h"
    using sw by (rule replace_hash)
  then have "length h = Suc (length (replace h (js ''#'') (js [])))"
    by (metis length_Cons)
  with len have "length (replace h (js ''#'') (js [])) = 6"
    by simp
  with nh p eq len show ?thesis by blast
qed

theorem hex_round_trip_witness:
  "validRawColor red = Inr True \<and>
   prepColorEntry env_ok red 0 =
     (Inr red_prepped, [EmbeddingRequest (JString (js ''Red''))], 1) \<and>
   hex red = JString (js ''#ff0000'') \<and> hex red_prepped = JString (js ''ff0000'') \<and>
   of_char CHR ''#'' # js ''ff0000'' = js ''#ff0000''"
  using hex_round_trip [OF valid_red prep_red_ok [of 0]] valid_red prep_red_ok [of 0]
  by (simp add: red_def red_prepped_def js_def)

lemma validRawColor_throws: "validRawColor r = Inl e \<Longrightarrow> e = TypeError ''length''"
  by (cases "name r"; cases "hex r") (simp_all add: validRawColor_def)

subsection \<open>Rows that fail before the store\<close>

lemma prepColorEntry_thrown:
  "validRawColor r = Inl e \<Longrightarrow> prepColorEntry env r w = (Inl e, [], w)"
  by (simp add: prepColorEntry_def)

lemma prepColorEntry_invalid:
  "validRawColor r = Inr False \<Longrightarrow> prepColorEntry env r w = (Inl (InvalidRawColor r), [], w)"
  by (simp add: prepColorEntry_def)

lemma prepColorEntry_embedding_rejected:
  "validRawColor r = Inr True \<Longrightarrow> embeddings_create env (name r) w = (Inl x, w1) \<Longrightarrow>
   prepColorEntry env r w = (Inl (EmbeddingsRejected x), [EmbeddingRequest (name r)], w1)"
  by (simp add: prepColorEntry_def getEmbedding_def)

lemma prepColorEntry_no_data:
  "validRawColor r = Inr True \<Longrightarrow> embeddings_create env (name r) w = (Inr [], w1) \<Longrightarrow>
   prepColorEntry env r w = (Inl (TypeError ''embedding''), [EmbeddingRequest (name r)], w1)"
  by (simp add: prepColorEntry_def getEmbedding_def)

lemma processRow_prep_failed:
  "row_at colorRows i = Some row \<Longrightarrow> prepColorEntry env (readColorRow row) w = (Inl e, evs, w1) \<Longrightarrow>
   processRow env colorRows i w = (evs @ [LogRowError (i + 1) e], w1)"
  by (simp add: processRow_def)

lemma processRow_store_rejected:
  "row_at colorRows i = Some row \<Longrightarrow>
   prepColorEntry env (readColorRow row) w = (Inr p, evs, w1) \<Longrightarrow>
   upsert env p w1 = (Inl x, w2) \<Longrightarrow>
   processRow env colorRows i w =
     (evs @ [UpsertRequest p, LogRowError (i + 1) (UpsertRejected x)], w2)"
  by (simp add: processRow_def saveColorEntry_def)




subsection \<open>The events of one row\<close>

lemma pause_events_append [simp]: "pause_events (xs @ ys) = pause_events xs @ pause_events ys"
  by (simp add: pause_events_def)

lemma pause_rows_append [simp]: "pause_rows (xs @ ys) = pause_rows xs @ pause_rows ys"
  by (simp add: pause_rows_def)

lemma failed_rows_append [simp]: "failed_rows (xs @ ys) = failed_rows xs @ failed_rows ys"
  by (simp add: failed_rows_def)

lemma prepColorEntry_events:
  assumes "prepColorEntry env r w = (res, evs, w')"
  shows "(evs = [] \<and> w' = w \<and> (\<exists>e. res = Inl e)) \<or>
         (evs = [EmbeddingRequest (name r)] \<and> w' = snd (embeddings_create env (name r) w))"
  using assms
  by (auto simp: prepColorEntry_def getEmbedding_def Let_def
           split: sum.splits bool.splits prod.splits list.splits jsval.splits)

lemma prepColorEntry_name:
  "prepColorEntry env r w = (Inr p, evs, w') \<Longrightarrow> name p = name r"
  by (auto simp: prepColorEntry_def Let_def
           split: sum.splits bool.splits prod.splits jsval.splits)

lemma saveColorEntry_events:
  assumes "saveColorEntry env p w = (res, evs, w')"
  shows "(\<exists>e. res = Inl (UpsertRejected e) \<and> evs = [UpsertRequest p]) \<or>
         (res = Inr () \<and> (\<exists>e. evs = [UpsertRequest p, LogStoreError e])) \<or>
         (res = Inr () \<and> evs = [UpsertRequest p, LogSaved (name p)])"
  using assms
  by (auto simp: saveColorEntry_def split: sum.splits prod.splits option.splits)

lemma processRow_cases:
  assumes "processRow env colorRows i w = (evs, w')"
  shows "(\<exists>pre e. evs = pre @ [LogRowError (i + 1) e] \<and> failed_rows pre = [] \<and>
                  pause_events pre = [] \<and> pause_rows pre = [] \<and>
                  ((\<forall>x. e \<noteq> UpsertRejected x) \<longrightarrow> (\<forall>p. UpsertRequest p \<notin> set pre))) \<or>
         (0 \<le> i \<and> failed_rows evs = [] \<and>
          pause_events evs = (if (i + 1) mod 10 = 0
                              then [LogProcessed (i + 1) (length colorRows), Delay 200] else []) \<and>
          pause_rows evs = (if (i + 1) mod 10 = 0 then [i + 1] else []) \<and>
          (\<exists>p. UpsertRequest p \<in> set evs \<and>
                name p = name (readColorRow (colorRows ! nat i))))"
proof (cases "row_at colorRows i")
  case None
  with assms show ?thesis
    by (auto simp: processRow_def failed_rows_def pause_events_def pause_rows_def)
next
  case (Some row)
  then have False: "0 \<le> i" and row: "row = colorRows ! nat i"
    by (auto simp: row_at_def split: if_splits)
  note at = Some [unfolded row]
  obtain res evs1 w1 where prep:
    "prepColorEntry env (readColorRow (colorRows ! nat i)) w = (res, evs1, w1)"
    by (metis prod_cases3)
  from prepColorEntry_events [OF prep]
  have evs1: "failed_rows evs1 = [] \<and> pause_events evs1 = [] \<and> pause_rows evs1 = [] \<and>
              (\<forall>p. UpsertRequest p \<notin> set evs1)"
    by (auto simp: failed_rows_def pause_events_def pause_rows_def)
  show ?thesis
  proof (cases res)
    case (Inl e)
    with assms at prep have "evs = evs1 @ [LogRowError (i + 1) e]"
      by (simp add: processRow_def Let_def)
    with evs1 show ?thesis by blast
  next
    case (Inr p)
    obtain res2 evs2 w2 where save: "saveColorEntry env p w1 = (res2, evs2, w2)"
      by (metis prod_cases3)
    from prep Inr have nm: "name p = name (readColorRow (colorRows ! nat i))"
      by (simp add: prepColorEntry_name)
    from saveColorEntry_events [OF save]
    have evs2: "failed_rows evs2 = [] \<and> pause_events evs2 = [] \<and> pause_rows evs2 = [] \<and>
                UpsertRequest p \<in> set evs2"
      by (auto simp: failed_rows_def pause_events_def pause_rows_def)
    show ?thesis
    proof (cases res2)
      case (Inl e)
      with assms at prep Inr save have "evs = (evs1 @ evs2) @ [LogRowError (i + 1) e]"
        by (simp add: processRow_def Let_def)
      moreover from saveColorEntry_events [OF save] Inl have "\<exists>x. e = UpsertRejected x"
        by auto
      ultimately show ?thesis
        using evs1 evs2 by (intro disjI1 exI [of _ "evs1 @ evs2"] exI [of _ e]) auto
    next
      case (Inr u)
      with assms at prep \<open>res = Inr p\<close> save
      have "evs = evs1 @ evs2 @ (if (i + 1) mod 10 = 0
               then [LogProcessed (i + 1) (length colorRows), Delay 200] else [])"
        by (auto simp: processRow_def Let_def split: if_splits)
      with evs1 evs2 nm False show ?thesis
        by (intro disjI2) (auto simp: failed_rows_def pause_events_def pause_rows_def)
    qed
  qed
qed


lemma processRow_summary:
  assumes "processRow env colorRows i w = (evs, w')"
  shows "(failed_rows evs = [i + 1] \<and> pause_events evs = [] \<and> pause_rows evs = []) \<or>
         (0 \<le> i \<and> failed_rows evs = [] \<and>
          pause_events evs = (if (i + 1) mod 10 = 0
                              then [LogProcessed (i + 1) (length colorRows), Delay 200] else []) \<and>
          pause_rows evs = (if (i + 1) mod 10 = 0 then [i + 1] else []) \<and>
          (\<exists>p. UpsertRequest p \<in> set evs \<and>
                name p = name (readColorRow (colorRows ! nat i))))"
  using processRow_cases [OF assms]
proof (elim disjE exE conjE)
  fix pre e
  assume "evs = pre @ [LogRowError (i + 1) e]" and "failed_rows pre = []"
    and "pause_events pre = []" and "pause_rows pre = []"
  then have "failed_rows evs = [i + 1] \<and> pause_events evs = [] \<and> pause_rows evs = []"
    by (simp add: failed_rows_def pause_events_def pause_rows_def)
  then show ?thesis by (rule disjI1)
next
  fix p
  assume "0 \<le> i" and "failed_rows evs = []"
    and "pause_events evs = (if (i + 1) mod 10 = 0
                              then [LogProcessed (i + 1) (length colorRows), Delay 200] else [])"
    and "pause_rows evs = (if (i + 1) mod 10 = 0 then [i + 1] else [])"
    and "UpsertRequest p \<in> set evs" and "name p = name (readColorRow (colorRows ! nat i))"
  then show ?thesis by blast
qed

subsection \<open>The events of the loop\<close>

lemma loop_done: "\<not> i < int (length colorRows) \<Longrightarrow> loop env colorRows i trace w = (trace, w)"
  by (simp add: loop.simps)

lemma loop_step:
  "i < int (length colorRows) \<Longrightarrow> processRow env colorRows i w = (evs, w') \<Longrightarrow>
   loop env colorRows i trace w = loop env colorRows (i + 1) (trace @ evs) w'"
  by (subst loop.simps) simp

lemma loop_append:
  "loop env colorRows i trace w =
     (trace @ fst (loop env colorRows i [] w), snd (loop env colorRows i [] w))"
proof (induction "nat (int (length colorRows) - i)" arbitrary: i trace w)
  case 0
  then have "\<not> i < int (length colorRows)" by simp
  then show ?case by (simp add: loop_done)
next
  case (Suc m)
  then have lt: "i < int (length colorRows)" by linarith
  obtain evs w' where row: "processRow env colorRows i w = (evs, w')"
    by (cases "processRow env colorRows i w")
  from Suc.hyps(2) have m: "m = nat (int (length colorRows) - (i + 1))" by linarith
  have "loop env colorRows i trace w = loop env colorRows (i + 1) (trace @ evs) w'"
    using lt row by (rule loop_step)
  also have "\<dots> = ((trace @ evs) @ fst (loop env colorRows (i + 1) [] w'),
                     snd (loop env colorRows (i + 1) [] w'))"
    using Suc.hyps(1) [OF m] .
  finally have a: "loop env colorRows i trace w =
      (trace @ evs @ fst (loop env colorRows (i + 1) [] w'),
       snd (loop env colorRows (i + 1) [] w'))" by simp
  have "loop env colorRows i [] w = loop env colorRows (i + 1) ([] @ evs) w'"
    using lt row by (rule loop_step)
  also have "\<dots> = (([] @ evs) @ fst (loop env colorRows (i + 1) [] w'),
                     snd (loop env colorRows (i + 1) [] w'))"
    using Suc.hyps(1) [OF m] .
  finally have b: "loop env colorRows i [] w =
      (evs @ fst (loop env colorRows (i + 1) [] w'),
       snd (loop env colorRows (i + 1) [] w'))" by simp
  from a b show ?case by simp
qed

text \<open>The events of the loop from row \<open>i\<close> on: those of row \<open>i\<close>, then those of the rest.\<close>

lemma loop_unfold:
  assumes "i < int (length colorRows)" and "processRow env colorRows i w = (evs, w')"
  shows "loop env colorRows i [] w =
           (evs @ fst (loop env colorRows (i + 1) [] w'),
            snd (loop env colorRows (i + 1) [] w'))"
proof -
  have "loop env colorRows i [] w = loop env colorRows (i + 1) ([] @ evs) w'"
    using assms by (rule loop_step)
  then show ?thesis
    using loop_append [of env colorRows "i + 1" evs w'] by simp
qed

lemma loop_failed_range:
  "set (failed_rows (fst (loop env colorRows i [] w))) \<subseteq> {i + 1 .. int (length colorRows)}"
proof (induction "nat (int (length colorRows) - i)" arbitrary: i w)
  case 0
  then have "\<not> i < int (length colorRows)" by simp
  then show ?case by (simp add: loop_done failed_rows_def)
next
  case (Suc m)
  then have lt: "i < int (length colorRows)" by linarith
  obtain evs w' where row: "processRow env colorRows i w = (evs, w')"
    by (cases "processRow env colorRows i w")
  from Suc.hyps(2) have m: "m = nat (int (length colorRows) - (i + 1))" by linarith
  from processRow_summary [OF row] have "set (failed_rows evs) \<subseteq> {i + 1}"
    by auto
  moreover have "set (failed_rows (fst (loop env colorRows (i + 1) [] w')))
                   \<subseteq> {i + 1 + 1 .. int (length colorRows)}"
    using Suc.hyps(1) [OF m] .
  ultimately show ?case
    using lt by (auto simp: loop_unfold [OF lt row])
qed

lemma loop_pause_rows:
  "pause_rows (fst (loop env colorRows i [] w)) =
     filter (\<lambda>k. k mod 10 = 0 \<and> k \<notin> set (failed_rows (fst (loop env colorRows i [] w))))
       [i + 1 .. int (length colorRows)]"
proof (induction "nat (int (length colorRows) - i)" arbitrary: i w)
  case 0
  then have "\<not> i < int (length colorRows)" by simp
  then show ?case by (simp add: loop_done pause_rows_def)
next
  case (Suc m)
  then have lt: "i < int (length colorRows)" by linarith
  obtain evs w' where row: "processRow env colorRows i w = (evs, w')"
    by (cases "processRow env colorRows i w")
  from Suc.hyps(2) have m: "m = nat (int (length colorRows) - (i + 1))" by linarith
  let ?rest = "fst (loop env colorRows (i + 1) [] w')"
  have range: "set (failed_rows ?rest) \<subseteq> {i + 1 + 1 .. int (length colorRows)}"
    by (rule loop_failed_range)
  have IH: "pause_rows ?rest =
      filter (\<lambda>k. k mod 10 = 0 \<and> k \<notin> set (failed_rows ?rest))
        [i + 1 + 1 .. int (length colorRows)]"
    using Suc.hyps(1) [OF m] .
  have upto: "[i + 1 .. int (length colorRows)] = (i + 1) # [i + 1 + 1 .. int (length colorRows)]"
    using lt by (simp add: upto_rec1)
  have here: "pause_rows evs =
      (if (i + 1) mod 10 = 0 \<and> i + 1 \<notin> set (failed_rows evs) then [i + 1] else [])"
    and only: "set (failed_rows evs) \<subseteq> {i + 1}"
    using processRow_summary [OF row] by auto
  have notin: "i + 1 \<notin> set (failed_rows ?rest)"
    using range by auto
  have tail: "filter (\<lambda>k. k mod 10 = 0 \<and> k \<notin> set (failed_rows (evs @ ?rest)))
                [i + 1 + 1 .. int (length colorRows)] =
              filter (\<lambda>k. k mod 10 = 0 \<and> k \<notin> set (failed_rows ?rest))
                [i + 1 + 1 .. int (length colorRows)]"
    using only by (intro filter_cong) auto
  show ?case
    unfolding loop_unfold [OF lt row] fst_conv pause_rows_append upto filter.simps tail IH [symmetric]
    using here notin by simp
qed

lemma loop_pause_events:
  "pause_events (fst (loop env colorRows i [] w)) =
     concat (map (\<lambda>k. [LogProcessed k (length colorRows), Delay 200])
               (pause_rows (fst (loop env colorRows i [] w))))"
proof (induction "nat (int (length colorRows) - i)" arbitrary: i w)
  case 0
  then have "\<not> i < int (length colorRows)" by simp
  then show ?case by (simp add: loop_done pause_rows_def pause_events_def)
next
  case (Suc m)
  then have lt: "i < int (length colorRows)" by linarith
  obtain evs w' where row: "processRow env colorRows i w = (evs, w')"
    by (cases "processRow env colorRows i w")
  from Suc.hyps(2) have m: "m = nat (int (length colorRows) - (i + 1))" by linarith
  have "pause_events evs =
          concat (map (\<lambda>k. [LogProcessed k (length colorRows), Delay 200]) (pause_rows evs))"
    using processRow_summary [OF row] by auto
  then show ?case
    using Suc.hyps(1) [OF m, of w'] by (simp add: loop_unfold [OF lt row])
qed

lemma loop_attempts_every_row:
  assumes "i \<le> j" and "j < int (length colorRows)"
  shows "j + 1 \<in> set (failed_rows (fst (loop env colorRows i [] w))) \<or>
         (0 \<le> j \<and> (\<exists>p. UpsertRequest p \<in> set (fst (loop env colorRows i [] w)) \<and>
                         name p = name (readColorRow (colorRows ! nat j))))"
  using assms
proof (induction "nat (int (length colorRows) - i)" arbitrary: i w)
  case 0
  then show ?case by simp
next
  case (Suc m)
  then have lt: "i < int (length colorRows)" by linarith
  obtain evs w' where row: "processRow env colorRows i w = (evs, w')"
    by (cases "processRow env colorRows i w")
  from Suc.hyps(2) have m: "m = nat (int (length colorRows) - (i + 1))" by linarith
  show ?case
  proof (cases "j = i")
    case True
    with processRow_summary [OF row] show ?thesis
      by (auto simp: loop_unfold [OF lt row])
  next
    case False
    with Suc.prems have "i + 1 \<le> j" by simp
    from Suc.hyps(1) [OF m this Suc.prems(2), of w'] show ?thesis
      by (auto simp: loop_unfold [OF lt row])
  qed
qed

subsection \<open>The events of a run\<close>

lemma runFullScript_trace:
  "events_of_run env file maxRows startRow w =
     LogProcessing (length (rows_of_run file maxRows)) #
     fst (loop env (rows_of_run file maxRows) (start_index startRow) [] w) @ [LogCompleted]"
  by (simp add: runFullScript_def Let_def
        loop_append [of env "getColorRows file True maxRows" "start_index startRow"
                        "[LogProcessing (length (getColorRows file True maxRows))]" w]
        split: prod.splits)

lemma failed_rows_run:
  "failed_rows (events_of_run env file maxRows startRow w) =
     failed_rows (fst (loop env (rows_of_run file maxRows) (start_index startRow) [] w))"
  by (simp add: runFullScript_trace failed_rows_def)

lemma pause_rows_run:
  "pause_rows (events_of_run env file maxRows startRow w) =
     pause_rows (fst (loop env (rows_of_run file maxRows) (start_index startRow) [] w))"
  by (simp add: runFullScript_trace pause_rows_def)

lemma pause_events_run:
  "pause_events (events_of_run env file maxRows startRow w) =
     pause_events (fst (loop env (rows_of_run file maxRows) (start_index startRow) [] w))"
  by (simp add: runFullScript_trace pause_events_def)

lemma logged_row_failed: "LogRowError k e \<in> set trace \<Longrightarrow> k \<in> set (failed_rows trace)"
  by (induction trace) (auto simp: failed_rows_def)

subsection \<open>Rows that complete\<close>

lemma processRow_completes:
  assumes "row_at colorRows i = Some row" and "validRawColor (readColorRow row) = Inr True"
      and "never_throws env"
  shows "failed_rows (fst (processRow env colorRows i w)) = []"
proof -
  let ?r = "readColorRow row"
  obtain n h where nh: "name ?r = JString n" "hex ?r = JString h"
    using validRawColor_True_strings [OF assms(2)] by blast
  obtain d ds w1 where emb: "embeddings_create env (name ?r) w = (Inr (d # ds), w1)"
    using assms(3) unfolding never_throws_def by (metis fst_conv surj_pair)
  let ?p = "\<lparr> name = name ?r, hex = JString (replace h (js ''#'') (js [])),
              is_good_name = is_good_name ?r,
              embedding_openai_1536 = JSON_stringify env d \<rparr>"
  have prep: "prepColorEntry env ?r w = (Inr ?p, [EmbeddingRequest (name ?r)], w1)"
    using assms(2) nh emb by (simp add: prepColorEntry_def getEmbedding_def)
  obtain r w2 where ups: "upsert env ?p w1 = (Inr r, w2)"
    using assms(3) unfolding never_throws_def by (metis fst_conv surj_pair)
  then obtain evs2 where save: "saveColorEntry env ?p w1 = (Inr (), evs2, w2)"
    and evs2: "failed_rows evs2 = []"
    by (cases r) (auto simp: saveColorEntry_def failed_rows_def)
  from assms(1) prep save evs2 show ?thesis
    by (simp add: processRow_def Let_def failed_rows_def)
qed

lemma loop_completes:
  assumes "0 \<le> i" and "\<forall>row \<in> set colorRows. validRawColor (readColorRow row) = Inr True"
      and "never_throws env"
  shows "failed_rows (fst (loop env colorRows i [] w)) = []"
  using assms(1)
proof (induction "nat (int (length colorRows) - i)" arbitrary: i w)
  case 0
  then have "\<not> i < int (length colorRows)" by simp
  then show ?case by (simp add: loop_done failed_rows_def)
next
  case (Suc m)
  then have lt: "i < int (length colorRows)" by linarith
  obtain evs w' where row: "processRow env colorRows i w = (evs, w')"
    by (cases "processRow env colorRows i w")
  from Suc.hyps(2) have m: "m = nat (int (length colorRows) - (i + 1))" by linarith
  from lt Suc.prems have at: "row_at colorRows i = Some (colorRows ! nat i)"
    and "colorRows ! nat i \<in> set colorRows" by (simp_all add: row_at_def)
  with assms(2) have "validRawColor (readColorRow (colorRows ! nat i)) = Inr True" by blast
  from processRow_completes [OF at this assms(3), of w] row
  have "failed_rows evs = []" by simp
  moreover from Suc.prems have "0 \<le> i + 1" by simp
  from Suc.hyps(1) [OF m this, of w']
  have "failed_rows (fst (loop env colorRows (i + 1) [] w')) = []" .
  ultimately show ?case
    by (simp add: loop_unfold [OF lt row])
qed

lemma multiples_of_10_upto_25: "filter (\<lambda>k. k mod 10 = 0) [1 .. (25::int)] = [10, 20]"
  by (simp add: upto_rec1 [of 1] upto_rec_numeral)

subsection \<open>Failures of a row\<close>

text \<open>
  C1 (amended). Whatever happens in the other rows, every row of the row list from the
  first index on is carried through: its error is written by the \<^verbatim>\<open>catch\<close> block with
  its position, or its record is sent to the store; the run ends with the completion
  line; and whatever the events of a row are, the loop goes on with the next index.
  Every error that is thrown in a row is caught at the boundary of that row and written
  with the position of the row, as the last event of the row:
  \<^item> for a row that is \<^verbatim>\<open>undefined\<close>, for a row on which validation throws and for a row
    that validation refuses, it is the only event of the row and the world is as before;
  \<^item> for a rejected embedding request, and for an answer without data, it follows the
    request, and the world is the one that the embedding service left;
  \<^item> for a rejected store call it follows the request to the store.
  When the error is not a rejection of the store call itself, no upsert was requested for
  the row. An error that the store reports for an upsert is not thrown:
  \<^verbatim>\<open>saveColorEntry\<close> writes it and returns normally.
\<close>

theorem row_errors_do_not_stop_the_batch:
  "(\<forall>j. start_index startRow \<le> j \<and> j < int (length (rows_of_run file maxRows)) \<longrightarrow>
        j + 1 \<in> set (failed_rows (events_of_run env file maxRows startRow w)) \<or>
        (0 \<le> j \<and>
         (\<exists>p. UpsertRequest p \<in> set (events_of_run env file maxRows startRow w) \<and>
               name p = name (readColorRow (rows_of_run file maxRows ! nat j))))) \<and>
   last (events_of_run env file maxRows startRow w) = LogCompleted \<and>
   (i < int (length colorRows) \<and> processRow env colorRows i w0 = (evs, w') \<longrightarrow>
      loop env colorRows i trace w0 = loop env colorRows (i + 1) (trace @ evs) w') \<and>
   (row_at colorRows i = None \<longrightarrow>
      processRow env colorRows i w0 = ([LogRowError (i + 1) (TypeError ''split'')], w0)) \<and>
   (row_at colorRows i = Some row \<and> validRawColor (readColorRow row) = Inl e \<longrightarrow>
      processRow env colorRows i w0 = ([LogRowError (i + 1) e], w0)) \<and>
   (row_at colorRows i = Some row \<and> validRawColor (readColorRow row) = Inr False \<longrightarrow>
      processRow env colorRows i w0 =
        ([LogRowError (i + 1) (InvalidRawColor (readColorRow row))], w0)) \<and>
   (row_at colorRows i = Some row \<and> validRawColor (readColorRow row) = Inr True \<and>
    embeddings_create env (name (readColorRow row)) w0 = (Inl x, w1) \<longrightarrow>
      processRow env colorRows i w0 =
        ([EmbeddingRequest (name (readColorRow row)),
          LogRowError (i + 1) (EmbeddingsRejected x)], w1)) \<and>
   (row_at colorRows i = Some row \<and> validRawColor (readColorRow row) = Inr True \<and>
    embeddings_create env (name (readColorRow row)) w0 = (Inr [], w1) \<longrightarrow>
      processRow env colorRows i w0 =
        ([EmbeddingRequest (name (readColorRow row)),
          LogRowError (i + 1) (TypeError ''embedding'')], w1)) \<and>
   (row_at colorRows i = Some row \<and>
    prepColorEntry env (readColorRow row) w0 = (Inr q, evs, w1) \<and>
    upsert env q w1 = (Inl x, w2) \<longrightarrow>
      processRow env colorRows i w0 =
        (evs @ [UpsertRequest q, LogRowError (i + 1) (UpsertRejected x)], w2)) \<and>
   (processRow env colorRows i w0 = (evs, w') \<and> LogRowError k e \<in> set evs \<longrightarrow>
      k = i + 1 \<and> last evs = LogRowError (i + 1) e \<and>
      ((\<forall>x. e \<noteq> UpsertRejected x) \<longrightarrow> (\<forall>p. UpsertRequest p \<notin> set evs))) \<and>
   (fst (upsert env q w1) = Inr (Some err) \<longrightarrow>
      fst (saveColorEntry env q w1) = Inr () \<and>
      fst (snd (saveColorEntry env q w1)) = [UpsertRequest q, LogStoreError err])"
proof -
  let ?rows = "rows_of_run file maxRows"
  let ?inner = "fst (loop env ?rows (start_index startRow) [] w)"
  let ?tr = "events_of_run env file maxRows startRow w"
  have every_row: "j + 1 \<in> set (failed_rows ?tr) \<or>
        (0 \<le> j \<and> (\<exists>p. UpsertRequest p \<in> set ?tr \<and>
                        name p = name (readColorRow (?rows ! nat j))))"
    if j: "start_index startRow \<le> j \<and> j < int (length ?rows)" for j
  proof -
    from j have "j + 1 \<in> set (failed_rows ?inner) \<or>
        (0 \<le> j \<and> (\<exists>p. UpsertRequest p \<in> set ?inner \<and>
                        name p = name (readColorRow (?rows ! nat j))))"
      by (intro loop_attempts_every_row) simp_all
    moreover have "failed_rows ?tr = failed_rows ?inner"
      by (rule failed_rows_run)
    moreover have "set ?inner \<subseteq> set ?tr"
      by (auto simp: runFullScript_trace)
    ultimately show ?thesis by auto
  qed
  have completed: "last ?tr = LogCompleted"
    by (simp add: runFullScript_trace)
  have continues: "loop env colorRows i trace w0 = loop env colorRows (i + 1) (trace @ evs) w'"
    if "i < int (length colorRows) \<and> processRow env colorRows i w0 = (evs, w')"
    using that by (simp add: loop_step)
  have undefined_row: "processRow env colorRows i w0 =
      ([LogRowError (i + 1) (TypeError ''split'')], w0)"
    if "row_at colorRows i = None"
    using that by (simp add: processRow_def)
  have thrown: "processRow env colorRows i w0 = ([LogRowError (i + 1) e], w0)"
    if "row_at colorRows i = Some row \<and> validRawColor (readColorRow row) = Inl e"
    using that by (simp add: processRow_prep_failed prepColorEntry_thrown)
  have invalid: "processRow env colorRows i w0 =
        ([LogRowError (i + 1) (InvalidRawColor (readColorRow row))], w0)"
    if "row_at colorRows i = Some row \<and> validRawColor (readColorRow row) = Inr False"
    using that by (simp add: processRow_prep_failed prepColorEntry_invalid)
  have embedding: "processRow env colorRows i w0 =
        ([EmbeddingRequest (name (readColorRow row)),
          LogRowError (i + 1) (EmbeddingsRejected x)], w1)"
    if "row_at colorRows i = Some row \<and> validRawColor (readColorRow row) = Inr True \<and>
        embeddings_create env (name (readColorRow row)) w0 = (Inl x, w1)"
    using that by (simp add: processRow_prep_failed prepColorEntry_embedding_rejected)
  have no_data: "processRow env colorRows i w0 =
        ([EmbeddingRequest (name (readColorRow row)),
          LogRowError (i + 1) (TypeError ''embedding'')], w1)"
    if "row_at colorRows i = Some row \<and> validRawColor (readColorRow row) = Inr True \<and>
        embeddings_create env (name (readColorRow row)) w0 = (Inr [], w1)"
    using that by (simp add: processRow_prep_failed prepColorEntry_no_data)
  have store: "processRow env colorRows i w0 =
        (evs @ [UpsertRequest q, LogRowError (i + 1) (UpsertRejected x)], w2)"
    if "row_at colorRows i = Some row \<and>
        prepColorEntry env (readColorRow row) w0 = (Inr q, evs, w1) \<and>
        upsert env q w1 = (Inl x, w2)"
    using that by (simp add: processRow_store_rejected)
  have caught: "k = i + 1 \<and> last evs = LogRowError (i + 1) e \<and>
      ((\<forall>x. e \<noteq> UpsertRejected x) \<longrightarrow> (\<forall>p. UpsertRequest p \<notin> set evs))"
    if h: "processRow env colorRows i w0 = (evs, w') \<and> LogRowError k e \<in> set evs"
  proof -
    from h have row: "processRow env colorRows i w0 = (evs, w')"
      and mem: "LogRowError k e \<in> set evs" by simp_all
    from mem have "k \<in> set (failed_rows evs)" by (rule logged_row_failed)
    with processRow_cases [OF row] obtain pre e' where
      evs: "evs = pre @ [LogRowError (i + 1) e']" and pre: "failed_rows pre = []"
      and ups: "(\<forall>x. e' \<noteq> UpsertRejected x) \<longrightarrow> (\<forall>p. UpsertRequest p \<notin> set pre)"
      by auto
    from mem evs pre have "LogRowError k e = LogRowError (i + 1) e'"
      using logged_row_failed [of k e pre] by auto
    then have "k = i + 1" and "e' = e" by simp_all
    with evs ups show ?thesis by auto
  qed
  have reported: "fst (saveColorEntry env q w1) = Inr () \<and>
      fst (snd (saveColorEntry env q w1)) = [UpsertRequest q, LogStoreError err]"
    if "fst (upsert env q w1) = Inr (Some err)"
    using that by (cases "upsert env q w1") (simp add: saveColorEntry_def)
  show ?thesis
    by (intro conjI allI impI every_row completed continues undefined_row thrown invalid
          embedding no_data store reported)
       (use caught in blast)+
qed


theorem row_errors_do_not_stop_the_batch_witness:
  "start_index None \<le> 2 \<and> 2 < int (length (rows_of_run file3 None)) \<and>
   events_of_run env_ok file3 None None 0 =
     [LogProcessing 3] @ red_events @ [LogRowError 2 (InvalidRawColor nameless)] @
     red_events @ [LogCompleted] \<and>
   (\<exists>p. UpsertRequest p \<in> set (events_of_run env_ok file3 None None 0) \<and>
        name p = name (readColorRow (rows_of_run file3 None ! nat 2))) \<and>
   row_at (rows_of_run file3 None) 1 = Some nameless_row \<and>
   validRawColor (readColorRow nameless_row) = Inr False \<and>
   processRow env_ok (rows_of_run file3 None) 1 2 =
     ([LogRowError 2 (InvalidRawColor nameless)], 2) \<and>
   row_at [red_row] (- 1) = None \<and>
   processRow env_ok [red_row] (- 1) 0 = ([LogRowError 0 (TypeError ''split'')], 0) \<and>
   row_at [one_field_row] 0 = Some one_field_row \<and>
   validRawColor (readColorRow one_field_row) = Inl (TypeError ''length'') \<and>
   processRow env_ok [one_field_row] 0 0 = ([LogRowError 1 (TypeError ''length'')], 0) \<and>
   row_at [red_row] 0 = Some red_row \<and>
   validRawColor (readColorRow red_row) = Inr True \<and>
   embeddings_create env_embedding_down (name (readColorRow red_row)) 0 =
     (Inl ''quota exceeded'', 1) \<and>
   processRow env_embedding_down [red_row] 0 0 =
     ([EmbeddingRequest (JString (js ''Red'')),
       LogRowError 1 (EmbeddingsRejected ''quota exceeded'')], 1) \<and>
   prepColorEntry env_store_rejecting (readColorRow red_row) 0 =
     (Inr red_prepped, [EmbeddingRequest (JString (js ''Red''))], 1) \<and>
   upsert env_store_rejecting red_prepped 1 = (Inl ''connection reset'', 2) \<and>
   processRow env_store_rejecting [red_row] 0 0 =
     ([EmbeddingRequest (JString (js ''Red'')), UpsertRequest red_prepped,
       LogRowError 1 (UpsertRejected ''connection reset'')], 2)"
proof -
  have run: "events_of_run env_ok file3 None None 0 =
     [LogProcessing 3] @ red_events @ [LogRowError 2 (InvalidRawColor nameless)] @
     red_events @ [LogCompleted]"
    by (simp add: runFullScript_def rows3 start_index_def loop.simps row_at_def
          processRow_red_ok processRow_nameless)
  have hyp: "start_index None \<le> 2 \<and> 2 < int (length (rows_of_run file3 None))"
    by (simp add: start_index_def rows3)
  have notfailed: "(2::int) + 1 \<notin> set (failed_rows (events_of_run env_ok file3 None None 0))"
    unfolding run by (simp add: failed_rows_def red_events_def)
  have at_nameless: "row_at (rows_of_run file3 None) 1 = Some nameless_row"
    by (simp add: rows3 row_at_def)
  have v_nameless: "validRawColor (readColorRow nameless_row) = Inr False"
    by (simp add: read_nameless invalid_nameless)
  note every = row_errors_do_not_stop_the_batch [of None file3 None env_ok 0, THEN conjunct1, THEN spec, THEN mp]
  from every [OF hyp] notfailed
  have later: "\<exists>p. UpsertRequest p \<in> set (events_of_run env_ok file3 None None 0) \<and>
        name p = name (readColorRow (rows_of_run file3 None ! nat 2))"
    by simp
  note invalid = row_errors_do_not_stop_the_batch [THEN conjunct2, THEN conjunct2, THEN conjunct2, THEN conjunct2,
      THEN conjunct2, THEN conjunct1, THEN mp, OF conjI]
  from invalid [OF at_nameless v_nameless, of env_ok 2]
  have row_nameless: "processRow env_ok (rows_of_run file3 None) 1 2 =
     ([LogRowError 2 (InvalidRawColor nameless)], 2)"
    by (simp add: read_nameless)
  have at_before: "row_at [red_row] (- 1) = None"
    by (simp add: row_at_def)
  note undefined_row = row_errors_do_not_stop_the_batch [THEN conjunct2, THEN conjunct2, THEN conjunct2,
      THEN conjunct1, THEN mp]
  from undefined_row [OF at_before, of env_ok 0]
  have row_before: "processRow env_ok [red_row] (- 1) 0 =
      ([LogRowError 0 (TypeError ''split'')], 0)"
    by simp
  have at_one: "row_at [one_field_row] 0 = Some one_field_row"
    by (simp add: row_at_def)
  have v_one: "validRawColor (readColorRow one_field_row) = Inl (TypeError ''length'')"
    by (simp add: read_one_field throws_one_field)
  note thrown = row_errors_do_not_stop_the_batch [THEN conjunct2, THEN conjunct2, THEN conjunct2, THEN conjunct2,
      THEN conjunct1, THEN mp, OF conjI]
  from thrown [OF at_one v_one, of env_ok 0]
  have row_one: "processRow env_ok [one_field_row] 0 0 =
      ([LogRowError 1 (TypeError ''length'')], 0)"
    by simp
  have at_red: "row_at [red_row] 0 = Some red_row"
    by (simp add: row_at_def)
  have v_red: "validRawColor (readColorRow red_row) = Inr True"
    by (simp add: read_red valid_red)
  have emb: "embeddings_create env_embedding_down (name (readColorRow red_row)) 0 =
     (Inl ''quota exceeded'', 1)"
    by (simp add: env_embedding_down_def)
  note embedding = row_errors_do_not_stop_the_batch [THEN conjunct2, THEN conjunct2, THEN conjunct2, THEN conjunct2,
      THEN conjunct2, THEN conjunct2, THEN conjunct1, THEN mp, OF conjI, OF _ conjI]
  from embedding [OF at_red v_red emb]
  have row_emb: "processRow env_embedding_down [red_row] 0 0 =
     ([EmbeddingRequest (JString (js ''Red'')),
       LogRowError 1 (EmbeddingsRejected ''quota exceeded'')], 1)"
    by (simp add: read_red red_def)
  have prep: "prepColorEntry env_store_rejecting (readColorRow red_row) 0 =
     (Inr red_prepped, [EmbeddingRequest (JString (js ''Red''))], 1)"
    by (simp add: read_red prep_red_rejecting)
  have ups: "upsert env_store_rejecting red_prepped 1 = (Inl ''connection reset'', 2)"
    by (simp add: env_store_rejecting_def)
  note store = row_errors_do_not_stop_the_batch [THEN conjunct2, THEN conjunct2, THEN conjunct2, THEN conjunct2,
      THEN conjunct2, THEN conjunct2, THEN conjunct2, THEN conjunct2, THEN conjunct1, THEN mp,
      OF conjI, OF _ conjI]
  from store [OF at_red prep ups]
  have row_store: "processRow env_store_rejecting [red_row] 0 0 =
     ([EmbeddingRequest (JString (js ''Red'')), UpsertRequest red_prepped,
       LogRowError 1 (UpsertRejected ''connection reset'')], 2)"
    by simp
  from hyp run later at_nameless v_nameless row_nameless at_before row_before at_one v_one
    row_one at_red v_red emb row_emb prep ups row_store
  show ?thesis by (intro conjI) simp_all
qed

text \<open>
  The claim as it was stated fails for an error that the store reports: the run below has
  one row, its upsert reports an error, and no error is written by the \<^verbatim>\<open>catch\<close> block.
\<close>

theorem row_errors_counterexample:
  "events_of_run env_store_down file1 None None 0 =
     [LogProcessing 1, EmbeddingRequest (JString (js ''Red'')), UpsertRequest red_prepped,
      LogStoreError ''store unavailable'', LogCompleted] \<and>
   failed_rows (events_of_run env_store_down file1 None None 0) = []"
  by (simp add: runFullScript_def rows1 truthy_def start_index_def loop.simps processRow_def
        row_at_def read_red prep_red_down saveColorEntry_def upsert_red_down failed_rows_def)

text \<open>
  C4 (amended). When the upsert of a row reports an error, \<^verbatim>\<open>saveColorEntry\<close> writes the
  error itself, without a position, and returns normally: the error does not reach the
  \<^verbatim>\<open>catch\<close> block of the row. The loop body then goes on as after a successful save, with
  the pause when the position of the row is a multiple of 10, and writes no row error.
\<close>

theorem store_error_is_logged_in_place:
  "(upsert env p w = (Inr (Some err), w') \<longrightarrow>
      saveColorEntry env p w = (Inr (), [UpsertRequest p, LogStoreError err], w')) \<and>
   (row_at colorRows i = Some row \<and>
    prepColorEntry env (readColorRow row) w0 = (Inr p, evs, w) \<and>
    upsert env p w = (Inr (Some err), w') \<longrightarrow>
      processRow env colorRows i w0 =
        (evs @ [UpsertRequest p, LogStoreError err] @
         (if (i + 1) mod 10 = 0
          then [LogProcessed (i + 1) (length colorRows), Delay 200] else []), w') \<and>
      failed_rows (fst (processRow env colorRows i w0)) = failed_rows evs)"
proof (intro conjI impI)
  assume "upsert env p w = (Inr (Some err), w')"
  then show "saveColorEntry env p w = (Inr (), [UpsertRequest p, LogStoreError err], w')"
    by (simp add: saveColorEntry_def)
next
  assume h: "row_at colorRows i = Some row \<and>
    prepColorEntry env (readColorRow row) w0 = (Inr p, evs, w) \<and>
    upsert env p w = (Inr (Some err), w')"
  then have save: "saveColorEntry env p w = (Inr (), [UpsertRequest p, LogStoreError err], w')"
    by (simp add: saveColorEntry_def)
  with h show row: "processRow env colorRows i w0 =
        (evs @ [UpsertRequest p, LogStoreError err] @
         (if (i + 1) mod 10 = 0
          then [LogProcessed (i + 1) (length colorRows), Delay 200] else []), w')"
    by (simp add: processRow_def Let_def)
  show "failed_rows (fst (processRow env colorRows i w0)) = failed_rows evs"
    unfolding row by (auto simp: failed_rows_def)
qed

theorem store_error_is_logged_in_place_witness:
  "upsert env_store_down red_prepped 1 = (Inr (Some ''store unavailable''), 2) \<and>
   row_at (replicate 10 red_row) 9 = Some red_row \<and>
   prepColorEntry env_store_down (readColorRow red_row) 0 =
     (Inr red_prepped, [EmbeddingRequest (JString (js ''Red''))], 1) \<and>
   saveColorEntry env_store_down red_prepped 1 =
     (Inr (), [UpsertRequest red_prepped, LogStoreError ''store unavailable''], 2) \<and>
   processRow env_store_down (replicate 10 red_row) 9 0 =
     ([EmbeddingRequest (JString (js ''Red'')), UpsertRequest red_prepped,
       LogStoreError ''store unavailable'', LogProcessed 10 10, Delay 200], 2)"
proof -
  have ups: "upsert env_store_down red_prepped 1 = (Inr (Some ''store unavailable''), 2)"
    by (simp add: upsert_red_down)
  have at: "row_at (replicate 10 red_row) 9 = Some red_row"
    by (simp add: row_at_def)
  have prep: "prepColorEntry env_store_down (readColorRow red_row) 0 =
     (Inr red_prepped, [EmbeddingRequest (JString (js ''Red''))], 1)"
    by (simp add: read_red prep_red_down)
  from store_error_is_logged_in_place
         [of env_store_down red_prepped 1 "''store unavailable''" 2 "replicate 10 red_row" 9
             red_row 0 "[EmbeddingRequest (JString (js ''Red''))]"]
       ups at prep
  show ?thesis by simp
qed

text \<open>
  The claim as it was stated fails: with a store that reports an error,
  \<^verbatim>\<open>saveColorEntry\<close> returns normally and the row writes no row error.
\<close>

theorem store_error_counterexample:
  "saveColorEntry env_store_down red_prepped 1 =
     (Inr (), [UpsertRequest red_prepped, LogStoreError ''store unavailable''], 2) \<and>
   processRow env_store_down [red_row] 0 0 =
     ([EmbeddingRequest (JString (js ''Red'')), UpsertRequest red_prepped,
       LogStoreError ''store unavailable''], 2) \<and>
   failed_rows (fst (processRow env_store_down [red_row] 0 0)) = []"
  by (simp add: processRow_def row_at_def read_red prep_red_down saveColorEntry_def
        upsert_red_down failed_rows_def)

subsection \<open>Pauses\<close>





subsection \<open>The maximum row count\<close>

lemma getColorRows_cap:
  "0 < m \<Longrightarrow> length (getColorRows file omitHeader (Some m)) \<le> nat m"
  by (simp add: getColorRows_def slice_def truthy_def Let_def)

lemma getColorRows_cap_0:
  "getColorRows file omitHeader (Some 0) = getColorRows file omitHeader None"
  by (simp add: getColorRows_def truthy_def)

text \<open>
  C3. A maximum row count of 0 does not cap the run: the test \<^verbatim>\<open>maxRows ? ... : ...\<close>
  takes 0 for an absent argument, so all rows of the file are attempted.
\<close>

theorem cap_of_0_is_ignored:
  "rows_of_run file2 (Some 0) = [red_row, red_row] \<and>
   events_of_run env_ok file2 (Some 0) None 0 =
     [LogProcessing 2] @ red_events @ red_events @ [LogCompleted]"
proof -
  have rows: "rows_of_run file2 (Some 0) = [red_row, red_row]"
    by (simp add: getColorRows_def rows2 truthy_def slice_def)
  then show ?thesis
    by (simp add: runFullScript_def start_index_def loop.simps row_at_def processRow_red_ok)
qed

end
